theory Spec2Isabelle
  imports Main "HOL-Library.AList"
begin

section \<open>Python values, dictionaries and exceptions\<close>

text \<open>
  The values that travel through the interfaces are JSON-like: keyword arguments, request
  parameters and decoded response bodies. A dictionary is an association list in insertion
  order; \<open>AList.update\<close> overwrites an existing key in place and appends a new one, as a
  Python \<open>dict\<close> does.
\<close>

datatype pyval =
    PNone
  | PBool bool
  | PInt int
  | PStr string
  | PList "pyval list"
  | PDict "(string \<times> pyval) list"

type_synonym kwargs = "(string \<times> pyval) list"

text \<open>Python truthiness, as used by \<open>x or y\<close>.\<close>

fun truthy :: "pyval \<Rightarrow> bool" where
  "truthy PNone = False"
| "truthy (PBool b) = b"
| "truthy (PInt i) = (i \<noteq> 0)"
| "truthy (PStr s) = (s \<noteq> [])"
| "truthy (PList xs) = (xs \<noteq> [])"
| "truthy (PDict d) = (d \<noteq> [])"

definition py_or :: "pyval \<Rightarrow> pyval \<Rightarrow> pyval" where
  "py_or a b = (if truthy a then a else b)"

text \<open>\<open>s or default\<close> for an optional string argument (\<open>None\<close> and \<open>''\<close> are falsy).\<close>

fun str_or :: "string option \<Rightarrow> string \<Rightarrow> string" where
  "str_or None d = d"
| "str_or (Some s) d = (if s = [] then d else s)"

text \<open>\<open>d.update(other)\<close>: the entries of \<open>other\<close> are written into \<open>d\<close> in order.\<close>

definition dict_update :: "kwargs \<Rightarrow> kwargs \<Rightarrow> kwargs" where
  "dict_update d other = fold (\<lambda>(k, v) acc. AList.update k v acc) other d"

text \<open>The exceptions: those of the system's taxonomy, Python's own, and the two that a
  request can raise for a failure of the network or of the exchange.\<close>

datatype error =
    UnsupportedPairError
  | IncompleteCredentialsError
  | NotImplementedError
  | IndexError
  | KeyError
  | TypeError
  | ValueError
  | TransportError
  | ExchangeError

text \<open>\<open>x[k]\<close> for a string key \<open>k\<close>: only a dictionary can be subscripted by a string.\<close>

fun py_getitem :: "pyval \<Rightarrow> string \<Rightarrow> error + pyval" where
  "py_getitem (PDict d) k = (case map_of d k of None \<Rightarrow> Inl KeyError | Some v \<Rightarrow> Inr v)"
| "py_getitem _ k = Inl TypeError"

text \<open>\<open>for x in r\<close>: a list yields its elements, a dictionary its keys, a string its
  characters; the other values are not iterable.\<close>

fun py_iter :: "pyval \<Rightarrow> error + pyval list" where
  "py_iter (PList xs) = Inr xs"
| "py_iter (PDict d) = Inr (map (\<lambda>(k, v). PStr k) d)"
| "py_iter (PStr s) = Inr (map (\<lambda>c. PStr [c]) s)"
| "py_iter _ = Inl TypeError"

text \<open>A list comprehension \<open>[f(x) for x in xs]\<close> whose body may raise.\<close>

fun comprehension :: "('a \<Rightarrow> error + 'b) \<Rightarrow> 'a list \<Rightarrow> error + 'b list" where
  "comprehension f [] = Inr []"
| "comprehension f (x # xs) =
     (case f x of
        Inl e \<Rightarrow> Inl e
      | Inr y \<Rightarrow> (case comprehension f xs of Inl e \<Rightarrow> Inl e | Inr ys \<Rightarrow> Inr (y # ys)))"

text \<open>
  Passing \<open>**kwargs\<close> to a function whose named parameters are already bound: Python
  rejects the call with \<open>TypeError\<close> (multiple values for an argument) when a key of
  \<open>kwargs\<close> is the name of one of them.
\<close>

definition keyword_clash :: "string list \<Rightarrow> kwargs \<Rightarrow> bool" where
  "keyword_clash names kw = list_ex (\<lambda>k. k \<in> set names) (map fst kw)"

section \<open>Requests, responses and the world\<close>

text \<open>
  A response of the transport: the status code and the decoded JSON body (\<open>None\<close> when
  the body is not JSON, in which case \<open>.json()\<close> raises \<open>ValueError\<close>).
\<close>

record response =
  status_code :: nat
  body_json :: "pyval option"

definition json :: "response \<Rightarrow> error + pyval" where
  "json r = (case body_json r of None \<Rightarrow> Inl ValueError | Some v \<Rightarrow> Inr v)"

text \<open>
  The two ways the interfaces reach the network:
  \<^item> \<open>requests.request(verb, url, **kw)\<close>, the HTTP client called directly;
  \<^item> \<open>self.request(verb, endpoint, authenticate=..., **kw)\<close>, the request method of the
    interface base class, which is not among the sources: a call to it is recorded with
    its arguments and its outcome is supplied by the environment.
\<close>

datatype call =
    RequestsRequest string string kwargs
  | InterfaceRequest string string bool kwargs

text \<open>
  The world an interface instance runs in: the exchange (the outcome of a call, which may
  depend on the calls made before it: a response, or an exception), the calls issued so
  far in order, and the instance's cache of supported pairs.
\<close>

record world =
  exchange :: "call list \<Rightarrow> call \<Rightarrow> error + response"
  sent :: "call list"
  pairs_cache :: "pyval list option"

type_synonym 'a io = "world \<Rightarrow> (error + 'a) \<times> world"

definition return_io :: "'a \<Rightarrow> 'a io" where
  "return_io x w = (Inr x, w)"

definition raise_io :: "error \<Rightarrow> 'a io" where
  "raise_io e w = (Inl e, w)"

text \<open>Sequencing: an exception of the first statement skips the rest.\<close>

definition bind_io :: "'a io \<Rightarrow> ('a \<Rightarrow> 'b io) \<Rightarrow> 'b io" where
  "bind_io m f w = (case m w of (Inl e, w') \<Rightarrow> (Inl e, w') | (Inr x, w') \<Rightarrow> f x w')"

definition lift_io :: "error + 'a \<Rightarrow> 'a io" where
  "lift_io r w = (r, w)"

definition perform :: "call \<Rightarrow> response io" where
  "perform c w = (exchange w (sent w) c, w\<lparr>sent := sent w @ [c]\<rparr>)"

definition requests_request :: "string \<Rightarrow> string \<Rightarrow> kwargs \<Rightarrow> response io" where
  "requests_request verb url kw = perform (RequestsRequest verb url kw)"

definition request :: "string \<Rightarrow> string \<Rightarrow> bool \<Rightarrow> kwargs \<Rightarrow> response io" where
  "request verb endpoint authenticate kw = perform (InterfaceRequest verb endpoint authenticate kw)"

text \<open>What a method hands back: one response, or a list of them.\<close>

datatype retval = Single response | Many "response list"

section \<open>The decorators\<close>

text \<open>
  Modelled from the spec: the lazily fetched, cached set of supported pairs of the
  Pair/Capability Registry (the \<open>supported_pairs\<close> property of the interface base class is
  not among the sources). The first use runs the exchange's fetch and caches its result;
  later uses return the cache without fetching.
\<close>

definition supported_pairs :: "pyval list io \<Rightarrow> pyval list io" where
  "supported_pairs get_supported_pairs w =
     (case pairs_cache w of
        Some ps \<Rightarrow> (Inr ps, w)
      | None \<Rightarrow>
          (case get_supported_pairs w of
             (Inl e, w') \<Rightarrow> (Inl e, w')
           | (Inr ps, w') \<Rightarrow> (Inr ps, w'\<lparr>pairs_cache := Some ps\<rparr>)))"

text \<open>
  Modelled from the spec: the decorator \<open>check_and_format_pair\<close> of \<open>bitex.utils\<close>, which
  is not among the sources. It is the validation stage: a pair that is not in the
  supported set fails with \<open>UnsupportedPairError\<close> before the wrapped method runs; a
  supported pair is reformatted into the exchange's native syntax (\<open>native\<close>) and handed
  to the wrapped method.
\<close>

definition check_and_format_pair ::
  "pyval list io \<Rightarrow> (string \<Rightarrow> string) \<Rightarrow> (string \<Rightarrow> 'a io) \<Rightarrow> string \<Rightarrow> 'a io" where
  "check_and_format_pair get_supported_pairs native func pair =
     bind_io (supported_pairs get_supported_pairs)
       (\<lambda>ps. if PStr pair \<in> set ps then func (native pair) else raise_io UnsupportedPairError)"

text \<open>
  Modelled from the spec: the decorator \<open>format_with\<close> of \<open>bitex.utils\<close>, which is not
  among the sources. It is the formatting stage: it runs after the wrapped method, has no
  effect of its own, and hands what the method returned to the exchange's formatter
  (\<open>formatter\<close>, given the method's name), which yields the formatted result or a typed
  error. An exception of the wrapped method passes through.
\<close>

definition format_with ::
  "(string \<Rightarrow> retval \<Rightarrow> error + 'f) \<Rightarrow> string \<Rightarrow> retval io \<Rightarrow> 'f io" where
  "format_with formatter name func = bind_io func (\<lambda>r. lift_io (formatter name r))"

section \<open>The GDAX interface\<close>

text \<open>\<open>GDAX._get_supported_pairs\<close>: one GET of the products endpoint, then the
  \<open>id\<close> of every element of the decoded body.\<close>

definition GDAX_get_supported_pairs :: "pyval list io" where
  "GDAX_get_supported_pairs =
     bind_io (requests_request ''GET'' ''https://api.gdax.com/products'' [])
       (\<lambda>resp. bind_io (lift_io (json resp))
          (\<lambda>r. bind_io (lift_io (py_iter r))
             (\<lambda>xs. lift_io (comprehension (\<lambda>x. py_getitem x ''id'') xs))))"

text \<open>The method bodies, as written under the decorators.\<close>

definition GDAX_ticker_body :: "string \<Rightarrow> kwargs \<Rightarrow> retval io" where
  "GDAX_ticker_body pair kw =
     bind_io (request ''GET'' (''products/'' @ pair @ ''/ticker'') False [(''params'', PDict kw)])
       (\<lambda>r. return_io (Single r))"

definition GDAX_order_book_body :: "string \<Rightarrow> kwargs \<Rightarrow> retval io" where
  "GDAX_order_book_body pair kw =
     bind_io (request ''GET'' (''products/'' @ pair @ ''/book'') False [(''params'', PDict kw)])
       (\<lambda>r. return_io (Single r))"

definition GDAX_trades_body :: "string \<Rightarrow> kwargs \<Rightarrow> retval io" where
  "GDAX_trades_body pair kw =
     bind_io (request ''GET'' (''products/'' @ pair @ ''/trades'') False [(''params'', PDict kw)])
       (\<lambda>r. return_io (Single r))"

definition GDAX_place_order :: "string \<Rightarrow> pyval \<Rightarrow> pyval \<Rightarrow> string \<Rightarrow> kwargs \<Rightarrow> response io" where
  "GDAX_place_order pair price sz side kw =
     request ''POST'' ''orders'' True
       [(''json'', PDict (dict_update
           [(''product_id'', PStr pair), (''side'', PStr side), (''size'', sz), (''price'', price)]
           kw))]"

text \<open>\<open>ask\<close> and \<open>bid\<close> call \<open>self._place_order(pair, price, size, side, **kwargs)\<close>.\<close>

definition GDAX_ask_body :: "string \<Rightarrow> pyval \<Rightarrow> pyval \<Rightarrow> kwargs \<Rightarrow> retval io" where
  "GDAX_ask_body pair price sz kw =
     (if keyword_clash [''self'', ''pair'', ''price'', ''size'', ''side''] kw then raise_io TypeError
      else bind_io (GDAX_place_order pair price sz ''sell'' kw) (\<lambda>r. return_io (Single r)))"

definition GDAX_bid_body :: "string \<Rightarrow> pyval \<Rightarrow> pyval \<Rightarrow> kwargs \<Rightarrow> retval io" where
  "GDAX_bid_body pair price sz kw =
     (if keyword_clash [''self'', ''pair'', ''price'', ''size'', ''side''] kw then raise_io TypeError
      else bind_io (GDAX_place_order pair price sz ''buy'' kw) (\<lambda>r. return_io (Single r)))"

text \<open>
  \<open>GDAX.cancel_order\<close>: the loop issues one DELETE per identifier and collects the
  responses; an exception of a request leaves the loop. Then
  \<open>resps if len(resps) > 1 else resps[0]\<close>, where \<open>resps[0]\<close> of the empty list raises
  \<open>IndexError\<close>.
\<close>

fun GDAX_cancel_loop :: "kwargs \<Rightarrow> string list \<Rightarrow> response list \<Rightarrow> response list io" where
  "GDAX_cancel_loop kw [] resps = return_io resps"
| "GDAX_cancel_loop kw (oid # oids) resps =
     bind_io (request ''DELETE'' (''orders/'' @ oid) True [(''json'', PDict kw)])
       (\<lambda>r. GDAX_cancel_loop kw oids (resps @ [r]))"

definition unwrap_single :: "response list \<Rightarrow> retval io" where
  "unwrap_single resps =
     (if length resps > 1 then return_io (Many resps)
      else (case resps of [] \<Rightarrow> raise_io IndexError | r # _ \<Rightarrow> return_io (Single r)))"

definition GDAX_cancel_order_body :: "string list \<Rightarrow> kwargs \<Rightarrow> retval io" where
  "GDAX_cancel_order_body order_ids kw = bind_io (GDAX_cancel_loop kw order_ids []) unwrap_single"

text \<open>The public methods: the bodies under their decorators.\<close>

definition GDAX_ticker ::
  "(string \<Rightarrow> retval \<Rightarrow> error + 'f) \<Rightarrow> (string \<Rightarrow> string) \<Rightarrow> string \<Rightarrow> kwargs \<Rightarrow> 'f io" where
  "GDAX_ticker formatter native pair kw =
     check_and_format_pair GDAX_get_supported_pairs native
       (\<lambda>p. format_with formatter ''ticker'' (GDAX_ticker_body p kw)) pair"

definition GDAX_order_book ::
  "(string \<Rightarrow> retval \<Rightarrow> error + 'f) \<Rightarrow> (string \<Rightarrow> string) \<Rightarrow> string \<Rightarrow> kwargs \<Rightarrow> 'f io" where
  "GDAX_order_book formatter native pair kw =
     check_and_format_pair GDAX_get_supported_pairs native
       (\<lambda>p. format_with formatter ''order_book'' (GDAX_order_book_body p kw)) pair"

definition GDAX_trades ::
  "(string \<Rightarrow> retval \<Rightarrow> error + 'f) \<Rightarrow> (string \<Rightarrow> string) \<Rightarrow> string \<Rightarrow> kwargs \<Rightarrow> 'f io" where
  "GDAX_trades formatter native pair kw =
     check_and_format_pair GDAX_get_supported_pairs native
       (\<lambda>p. format_with formatter ''trades'' (GDAX_trades_body p kw)) pair"

definition GDAX_ask ::
  "(string \<Rightarrow> retval \<Rightarrow> error + 'f) \<Rightarrow> (string \<Rightarrow> string) \<Rightarrow> string \<Rightarrow> pyval \<Rightarrow> pyval \<Rightarrow> kwargs
     \<Rightarrow> 'f io" where
  "GDAX_ask formatter native pair price sz kw =
     check_and_format_pair GDAX_get_supported_pairs native
       (\<lambda>p. format_with formatter ''ask'' (GDAX_ask_body p price sz kw)) pair"

definition GDAX_bid ::
  "(string \<Rightarrow> retval \<Rightarrow> error + 'f) \<Rightarrow> (string \<Rightarrow> string) \<Rightarrow> string \<Rightarrow> pyval \<Rightarrow> pyval \<Rightarrow> kwargs
     \<Rightarrow> 'f io" where
  "GDAX_bid formatter native pair price sz kw =
     check_and_format_pair GDAX_get_supported_pairs native
       (\<lambda>p. format_with formatter ''bid'' (GDAX_bid_body p price sz kw)) pair"

definition GDAX_cancel_order ::
  "(string \<Rightarrow> retval \<Rightarrow> error + 'f) \<Rightarrow> string list \<Rightarrow> kwargs \<Rightarrow> 'f io" where
  "GDAX_cancel_order formatter order_ids kw =
     format_with formatter ''cancel_order'' (GDAX_cancel_order_body order_ids kw)"

section \<open>The Lykke interface\<close>

definition public_api :: string where
  "public_api = ''https://public-api.lykke.com/api/''"

text \<open>\<open>Lykke.request\<close> passes its arguments to the request method of the base class.\<close>

definition Lykke_request :: "string \<Rightarrow> string \<Rightarrow> bool \<Rightarrow> kwargs \<Rightarrow> response io" where
  "Lykke_request verb endpoint authenticate kw = request verb endpoint authenticate kw"

text \<open>
  The stubbed methods call \<open>self.request\<close> with one positional argument only. The
  signature is \<open>request(self, verb, endpoint, authenticate=False, **kwargs)\<close>, so such a
  call is rejected with \<open>TypeError\<close> (the endpoint is missing).
\<close>

definition Lykke_request_without_endpoint :: "string \<Rightarrow> bool \<Rightarrow> kwargs \<Rightarrow> response io" where
  "Lykke_request_without_endpoint verb authenticate kw = raise_io TypeError"

definition Lykke_asset_pairs :: "response io" where
  "Lykke_asset_pairs = Lykke_request ''GET'' ''AssetPairs'' False []"

definition Lykke_get_supported_pairs :: "pyval list io" where
  "Lykke_get_supported_pairs =
     bind_io Lykke_asset_pairs
       (\<lambda>resp. bind_io (lift_io (json resp))
          (\<lambda>r. bind_io (lift_io (py_iter r))
             (\<lambda>xs. lift_io (comprehension (\<lambda>pair. py_getitem pair ''Id'') xs))))"

definition Lykke_ticker_body :: "string \<Rightarrow> kwargs \<Rightarrow> retval io" where
  "Lykke_ticker_body pair kw =
     bind_io (requests_request ''GET'' (public_api @ ''Market/'' @ pair) [])
       (\<lambda>r. return_io (Single r))"

definition Lykke_order_book_body :: "string \<Rightarrow> kwargs \<Rightarrow> retval io" where
  "Lykke_order_book_body pair kw =
     bind_io (requests_request ''GET'' (public_api @ ''OrderBook/'' @ pair) [(''params'', PDict kw)])
       (\<lambda>r. return_io (Single r))"

text \<open>\<open>kwargs.get(k) is None\<close>: the key is missing or its value is \<open>None\<close>.\<close>

definition get_is_None :: "kwargs \<Rightarrow> string \<Rightarrow> bool" where
  "get_is_None kw k = (case map_of kw k of None \<Rightarrow> True | Some v \<Rightarrow> v = PNone)"

definition trades_params :: "kwargs \<Rightarrow> kwargs" where
  "trades_params kw =
     (let kw1 = (if get_is_None kw ''skip'' then dict_update kw [(''skip'', PInt 0)] else kw);
          kw2 = (if get_is_None kw1 ''take'' then dict_update kw1 [(''take'', PInt 1000)] else kw1)
      in kw2)"

definition Lykke_trades_body :: "string \<Rightarrow> kwargs \<Rightarrow> retval io" where
  "Lykke_trades_body pair kw =
     bind_io (requests_request ''GET'' (public_api @ ''Trades/'' @ pair)
                [(''params'', PDict (trades_params kw))])
       (\<lambda>r. return_io (Single r))"

text \<open>
  \<open>Lykke._place_order\<close>, \<open>Lykke.order_status\<close> and \<open>Lykke.cancel_order\<close> start with
  \<open>raise NotImplementedError\<close>; the statements written after it are kept as the
  continuation of the raise.
\<close>

definition Lykke_place_order ::
  "string \<Rightarrow> pyval \<Rightarrow> pyval \<Rightarrow> string \<Rightarrow> pyval \<Rightarrow> kwargs \<Rightarrow> response io" where
  "Lykke_place_order pair price sz side market kw =
     bind_io (raise_io NotImplementedError)
       (\<lambda>_ :: unit.
          let payload = dict_update [(''amount'', sz), (''price'', price)] kw
          in if truthy market
             then Lykke_request_without_endpoint (side @ ''/market/'' @ pair @ ''/'') True
                    [(''params'', PDict payload)]
             else Lykke_request_without_endpoint (side @ ''/'' @ pair @ ''/'') True
                    [(''params'', PDict payload)])"

text \<open>\<open>ask\<close> and \<open>bid\<close> call
  \<open>self._place_order(pair, price, size, side, market=market, **kwargs)\<close>.\<close>

definition Lykke_ask_body :: "string \<Rightarrow> pyval \<Rightarrow> pyval \<Rightarrow> pyval \<Rightarrow> kwargs \<Rightarrow> retval io" where
  "Lykke_ask_body pair price sz market kw =
     (if keyword_clash [''self'', ''pair'', ''price'', ''size'', ''side''] kw then raise_io TypeError
      else bind_io (Lykke_place_order pair price sz ''sell'' market kw) (\<lambda>r. return_io (Single r)))"

definition Lykke_bid_body :: "string \<Rightarrow> pyval \<Rightarrow> pyval \<Rightarrow> pyval \<Rightarrow> kwargs \<Rightarrow> retval io" where
  "Lykke_bid_body pair price sz market kw =
     (if keyword_clash [''self'', ''pair'', ''price'', ''size'', ''side''] kw then raise_io TypeError
      else bind_io (Lykke_place_order pair price sz ''buy'' market kw) (\<lambda>r. return_io (Single r)))"

definition Lykke_order_status_body :: "string \<Rightarrow> kwargs \<Rightarrow> retval io" where
  "Lykke_order_status_body order_id kw =
     bind_io (raise_io NotImplementedError)
       (\<lambda>_ :: unit.
          bind_io (Lykke_request_without_endpoint ''api/order_status/'' True
                     [(''params'', PDict (dict_update [(''id'', PStr order_id)] kw))])
            (\<lambda>r. return_io (Single r)))"

fun Lykke_cancel_loop :: "kwargs \<Rightarrow> string list \<Rightarrow> response list \<Rightarrow> response list io" where
  "Lykke_cancel_loop payload [] results = return_io results"
| "Lykke_cancel_loop payload (oid # oids) results =
     (let payload' = dict_update payload [(''id'', PStr oid)]
      in bind_io (Lykke_request_without_endpoint ''cancel_order/'' True [(''params'', PDict payload')])
           (\<lambda>r. Lykke_cancel_loop payload' oids (results @ [r])))"

definition Lykke_cancel_order_body :: "string list \<Rightarrow> kwargs \<Rightarrow> retval io" where
  "Lykke_cancel_order_body order_ids kw =
     bind_io (raise_io NotImplementedError)
       (\<lambda>_ :: unit. bind_io (Lykke_cancel_loop kw order_ids []) unwrap_single)"

text \<open>The public methods: the bodies under their decorators.\<close>

definition Lykke_ticker ::
  "(string \<Rightarrow> retval \<Rightarrow> error + 'f) \<Rightarrow> (string \<Rightarrow> string) \<Rightarrow> string \<Rightarrow> kwargs \<Rightarrow> 'f io" where
  "Lykke_ticker formatter native pair kw =
     check_and_format_pair Lykke_get_supported_pairs native
       (\<lambda>p. format_with formatter ''ticker'' (Lykke_ticker_body p kw)) pair"

definition Lykke_order_book ::
  "(string \<Rightarrow> retval \<Rightarrow> error + 'f) \<Rightarrow> (string \<Rightarrow> string) \<Rightarrow> string \<Rightarrow> kwargs \<Rightarrow> 'f io" where
  "Lykke_order_book formatter native pair kw =
     check_and_format_pair Lykke_get_supported_pairs native
       (\<lambda>p. format_with formatter ''order_book'' (Lykke_order_book_body p kw)) pair"

definition Lykke_trades ::
  "(string \<Rightarrow> retval \<Rightarrow> error + 'f) \<Rightarrow> (string \<Rightarrow> string) \<Rightarrow> string \<Rightarrow> kwargs \<Rightarrow> 'f io" where
  "Lykke_trades formatter native pair kw =
     check_and_format_pair Lykke_get_supported_pairs native
       (\<lambda>p. format_with formatter ''trades'' (Lykke_trades_body p kw)) pair"

definition Lykke_ask ::
  "(string \<Rightarrow> retval \<Rightarrow> error + 'f) \<Rightarrow> (string \<Rightarrow> string) \<Rightarrow> string \<Rightarrow> pyval \<Rightarrow> pyval \<Rightarrow> pyval
     \<Rightarrow> kwargs \<Rightarrow> 'f io" where
  "Lykke_ask formatter native pair price sz market kw =
     check_and_format_pair Lykke_get_supported_pairs native
       (\<lambda>p. format_with formatter ''ask'' (Lykke_ask_body p price sz market kw)) pair"

definition Lykke_bid ::
  "(string \<Rightarrow> retval \<Rightarrow> error + 'f) \<Rightarrow> (string \<Rightarrow> string) \<Rightarrow> string \<Rightarrow> pyval \<Rightarrow> pyval \<Rightarrow> pyval
     \<Rightarrow> kwargs \<Rightarrow> 'f io" where
  "Lykke_bid formatter native pair price sz market kw =
     check_and_format_pair Lykke_get_supported_pairs native
       (\<lambda>p. format_with formatter ''bid'' (Lykke_bid_body p price sz market kw)) pair"

definition Lykke_order_status ::
  "(string \<Rightarrow> retval \<Rightarrow> error + 'f) \<Rightarrow> string \<Rightarrow> kwargs \<Rightarrow> 'f io" where
  "Lykke_order_status formatter order_id kw =
     format_with formatter ''order_status'' (Lykke_order_status_body order_id kw)"

definition Lykke_cancel_order ::
  "(string \<Rightarrow> retval \<Rightarrow> error + 'f) \<Rightarrow> string list \<Rightarrow> kwargs \<Rightarrow> 'f io" where
  "Lykke_cancel_order formatter order_ids kw =
     format_with formatter ''cancel_order'' (Lykke_cancel_order_body order_ids kw)"

section \<open>The Lykke REST backend\<close>

record rest_api =
  addr :: string
  api_key :: "string option"
  secret :: "string option"
  version :: "string option"
  timeout :: int
  config_file :: "string option"

text \<open>
  Modelled from the spec: the constructor of the REST base class, which is not among the
  sources. The credential store is a plain holder of the values it is given; loading a
  configuration file is the work of an external collaborator and is not modelled.
\<close>

definition RESTAPI_init ::
  "string \<Rightarrow> string option \<Rightarrow> string option \<Rightarrow> string option \<Rightarrow> int \<Rightarrow> string option \<Rightarrow> rest_api" where
  "RESTAPI_init a v k s t c =
     \<lparr>addr = a, api_key = k, secret = s, version = v, timeout = t, config_file = c\<rparr>"

text \<open>\<open>LykkeREST.__init__\<close>: the default address and the placeholder secret.\<close>

definition LykkeREST_init ::
  "string option \<Rightarrow> string option \<Rightarrow> string option \<Rightarrow> string option \<Rightarrow> int \<Rightarrow> string option \<Rightarrow> rest_api" where
  "LykkeREST_init a k s v t c =
     RESTAPI_init (str_or a ''https://hft-api.lykke.com/api'') v k
       (Some (str_or s ''not applicable'')) t c"

text \<open>
  Modelled from the spec: \<open>check_auth_requirements\<close> of the REST base class, which is not
  among the sources. The store is configured iff key and secret are both non-empty;
  requiring authentication fails otherwise.
\<close>

fun nonempty :: "string option \<Rightarrow> bool" where
  "nonempty None = False"
| "nonempty (Some s) = (s \<noteq> [])"

definition configured :: "rest_api \<Rightarrow> bool" where
  "configured api = (nonempty (api_key api) \<and> nonempty (secret api))"

definition RESTAPI_check_auth_requirements :: "rest_api \<Rightarrow> error + unit" where
  "RESTAPI_check_auth_requirements api =
     (if configured api then Inr () else Inl IncompleteCredentialsError)"

text \<open>\<open>LykkeREST.check_auth_requirements\<close>: the check of the base class, whose
  \<open>IncompleteCredentialsError\<close> is caught and raised again.\<close>

definition LykkeREST_check_auth_requirements :: "rest_api \<Rightarrow> error + unit" where
  "LykkeREST_check_auth_requirements api =
     (case RESTAPI_check_auth_requirements api of
        Inl IncompleteCredentialsError \<Rightarrow> Inl IncompleteCredentialsError
      | r \<Rightarrow> r)"

definition key_value :: "rest_api \<Rightarrow> pyval" where
  "key_value api = (case api_key api of None \<Rightarrow> PNone | Some k \<Rightarrow> PStr k)"

text \<open>
  \<open>LykkeREST.sign_request_kwargs\<close>. The request assembly of the base class is not among
  the sources and is the parameter \<open>super_sign\<close>. \<open>pop('params')\<close> raises \<open>KeyError\<close>
  when the key is missing, and so does \<open>req_kwargs['data']\<close>, which is only read when
  the popped value is falsy.
\<close>

definition LykkeREST_sign_request_kwargs ::
  "(rest_api \<Rightarrow> string \<Rightarrow> kwargs \<Rightarrow> error + kwargs) \<Rightarrow> rest_api \<Rightarrow> string \<Rightarrow> kwargs
     \<Rightarrow> error + kwargs" where
  "LykkeREST_sign_request_kwargs super_sign api endpoint kw =
     (case super_sign api endpoint kw of
        Inl e \<Rightarrow> Inl e
      | Inr req_kwargs \<Rightarrow>
          (let req1 = AList.update ''headers'' (PDict [(''api-key'', key_value api)]) req_kwargs
           in case map_of req1 ''params'' of
                None \<Rightarrow> Inl KeyError
              | Some params \<Rightarrow>
                  (let req2 = AList.delete ''params'' req1
                   in if truthy params then Inr (AList.update ''data'' params req2)
                      else (case map_of req2 ''data'' of
                              None \<Rightarrow> Inl KeyError
                            | Some d \<Rightarrow> Inr (AList.update ''data'' d req2)))))"

text \<open>
  Modelled from the spec: a request that requires authentication (the private query of the
  REST base class is not among the sources). The credential check comes first, then the
  signing strategy, then the transport executes the signed request.
\<close>

definition private_query ::
  "(rest_api \<Rightarrow> error + unit) \<Rightarrow> (rest_api \<Rightarrow> string \<Rightarrow> kwargs \<Rightarrow> error + kwargs) \<Rightarrow> rest_api
     \<Rightarrow> string \<Rightarrow> string \<Rightarrow> kwargs \<Rightarrow> response io" where
  "private_query check_auth sign api verb endpoint kw =
     bind_io (lift_io (check_auth api))
       (\<lambda>_. bind_io (lift_io (sign api endpoint kw))
          (\<lambda>req_kwargs. requests_request verb endpoint req_kwargs))"

section \<open>Vocabulary of the statements\<close>

text \<open>The call that \<open>GDAX.cancel_order\<close> issues for one order identifier.\<close>

definition delete_call :: "kwargs \<Rightarrow> string \<Rightarrow> call" where
  "delete_call kw oid = InterfaceRequest ''DELETE'' (''orders/'' @ oid) True [(''json'', PDict kw)]"

text \<open>The outcomes an exchange gives to a sequence of calls issued one after another,
  starting from the history \<open>hist\<close>.\<close>

fun replay ::
  "(call list \<Rightarrow> call \<Rightarrow> error + response) \<Rightarrow> call list \<Rightarrow> call list \<Rightarrow> (error + response) list" where
  "replay ex hist [] = []"
| "replay ex hist (c # cs) = ex hist c # replay ex (hist @ [c]) cs"

section \<open>Sequencing and the decorators\<close>

lemma raise_then: "bind_io (raise_io e) f w = (Inl e, w)"
  by (simp add: bind_io_def raise_io_def)

lemma bind_perform:
  "bind_io (perform c) f w =
     (case exchange w (sent w) c of
        Inl e \<Rightarrow> (Inl e, w\<lparr>sent := sent w @ [c]\<rparr>)
      | Inr r \<Rightarrow> f r (w\<lparr>sent := sent w @ [c]\<rparr>))"
  by (simp add: bind_io_def perform_def split: sum.splits)

lemma supported_pairs_cached:
  "pairs_cache w = Some ps \<Longrightarrow> supported_pairs g w = (Inr ps, w)"
  by (simp add: supported_pairs_def)

lemma check_and_format_pair_unsupported:
  "pairs_cache w = Some ps \<Longrightarrow> PStr pair \<notin> set ps \<Longrightarrow>
   check_and_format_pair g native func pair w = (Inl UnsupportedPairError, w)"
  by (simp add: check_and_format_pair_def bind_io_def supported_pairs_cached raise_io_def)

lemma check_and_format_pair_supported:
  "pairs_cache w = Some ps \<Longrightarrow> PStr pair \<in> set ps \<Longrightarrow>
   check_and_format_pair g native func pair w = func (native pair) w"
  by (simp add: check_and_format_pair_def bind_io_def supported_pairs_cached)

lemma format_with_world: "snd (format_with formatter name func w) = snd (func w)"
  by (simp add: format_with_def bind_io_def lift_io_def split: prod.splits sum.splits)

lemma format_with_result:
  "func w = (Inr r, w') \<Longrightarrow> format_with formatter name func w = (formatter name r, w')"
  by (simp add: format_with_def bind_io_def lift_io_def)


section \<open>Pair validation\<close>

text \<open>
  Claim C1. Once the supported pairs have been fetched, a pair that is not among them
  makes every public method that takes a pair (ticker, order book, trades, ask and bid of
  the GDAX and of the Lykke interface) fail with \<open>UnsupportedPairError\<close> and leave the
  world as it was: no call is issued, since the validation stage rejects the pair before
  the method body builds its request.
\<close>

theorem unsupported_pair_rejected:
  assumes "pairs_cache w = Some ps" and "PStr P \<notin> set ps"
  shows "GDAX_ticker formatter native P kw w = (Inl UnsupportedPairError, w)
    \<and> GDAX_order_book formatter native P kw w = (Inl UnsupportedPairError, w)
    \<and> GDAX_trades formatter native P kw w = (Inl UnsupportedPairError, w)
    \<and> GDAX_ask formatter native P price sz kw w = (Inl UnsupportedPairError, w)
    \<and> GDAX_bid formatter native P price sz kw w = (Inl UnsupportedPairError, w)
    \<and> Lykke_ticker formatter native P kw w = (Inl UnsupportedPairError, w)
    \<and> Lykke_order_book formatter native P kw w = (Inl UnsupportedPairError, w)
    \<and> Lykke_trades formatter native P kw w = (Inl UnsupportedPairError, w)
    \<and> Lykke_ask formatter native P price sz market kw w = (Inl UnsupportedPairError, w)
    \<and> Lykke_bid formatter native P price sz market kw w = (Inl UnsupportedPairError, w)"
  unfolding GDAX_ticker_def GDAX_order_book_def GDAX_trades_def GDAX_ask_def GDAX_bid_def
    Lykke_ticker_def Lykke_order_book_def Lykke_trades_def Lykke_ask_def Lykke_bid_def
  by (simp add: check_and_format_pair_unsupported [OF assms])

section \<open>Cancelling orders on GDAX\<close>

lemma replay_length: "length (replay ex hist cs) = length cs"
  by (induction cs arbitrary: hist) auto

text \<open>When the exchange answers every DELETE with a response, the loop issues all of
  them in order and collects the responses in order.\<close>

lemma GDAX_cancel_loop_responses:
  "replay (exchange w) (sent w) (map (delete_call kw) oids) = map Inr rs \<Longrightarrow>
   GDAX_cancel_loop kw oids acc w =
     (Inr (acc @ rs), w\<lparr>sent := sent w @ map (delete_call kw) oids\<rparr>)"
proof (induction oids arbitrary: rs acc w)
  case Nil
  then show ?case by (simp add: return_io_def)
next
  case (Cons oid oids)
  from Cons.prems obtain r rs' where rs: "rs = r # rs'"
    and first: "exchange w (sent w) (delete_call kw oid) = Inr r"
    and later: "replay (exchange w) (sent w @ [delete_call kw oid]) (map (delete_call kw) oids)
                  = map Inr rs'"
    by (cases rs) auto
  let ?w = "w\<lparr>sent := sent w @ [delete_call kw oid]\<rparr>"
  have "replay (exchange ?w) (sent ?w) (map (delete_call kw) oids) = map Inr rs'"
    using later by simp
  from Cons.IH [OF this, of "acc @ [r]"] first show ?case
    by (simp add: rs request_def bind_perform delete_call_def)
qed



text \<open>The body has no handler: an exception raised by a request leaves the loop, and the
  identifiers after it are not attempted.\<close>

lemma GDAX_cancel_order_body_exception:
  "exchange w (sent w) (delete_call kw oid) = Inl e \<Longrightarrow>
   GDAX_cancel_order_body (oid # oids) kw w = (Inl e, w\<lparr>sent := sent w @ [delete_call kw oid]\<rparr>)"
  by (simp add: GDAX_cancel_order_body_def bind_io_def request_def perform_def delete_call_def)

text \<open>
  Claim C2, as stated, fails: the body has no handler, so a request that raises ends the
  call. With three identifiers and an exception on the second, two DELETE requests are
  issued, the third identifier is not attempted, and nothing is returned.
\<close>

theorem cancel_order_request_exception_counterexample:
  "GDAX_cancel_order_body [''a'', ''b'', ''c''] []
     \<lparr>exchange = (\<lambda>h c. if c = delete_call [] ''b'' then Inl TransportError
                          else Inr \<lparr>status_code = 200, body_json = None\<rparr>),
      sent = [], pairs_cache = None\<rparr>
   = (Inl TransportError,
      \<lparr>exchange = (\<lambda>h c. if c = delete_call [] ''b'' then Inl TransportError
                           else Inr \<lparr>status_code = 200, body_json = None\<rparr>),
       sent = [delete_call [] ''a'', delete_call [] ''b''], pairs_cache = None\<rparr>)"
  by (simp add: GDAX_cancel_order_body_def bind_io_def request_def perform_def delete_call_def)

text \<open>
  Claim C2, amended. A call of \<open>GDAX.cancel_order\<close> with \<open>n \<ge> 1\<close> identifiers, each of
  whose requests is answered with a response, issues exactly one DELETE per identifier, in
  input order. With more than one identifier the body returns the sequence of the \<open>n\<close>
  responses in input order; with one identifier it returns that single response, not a
  one-element sequence. The decorated method hands this value to the formatter.
\<close>

theorem cancel_order_one_delete_per_id:
  assumes "order_ids \<noteq> []"
    and "replay (exchange w) (sent w) (map (delete_call kw) order_ids) = map Inr rs"
  shows "length rs = length order_ids
    \<and> snd (GDAX_cancel_order_body order_ids kw w)
        = w\<lparr>sent := sent w @ map (delete_call kw) order_ids\<rparr>
    \<and> (length order_ids > 1 \<longrightarrow> fst (GDAX_cancel_order_body order_ids kw w) = Inr (Many rs))
    \<and> (length order_ids = 1 \<longrightarrow> fst (GDAX_cancel_order_body order_ids kw w) = Inr (Single (hd rs)))
    \<and> GDAX_cancel_order formatter order_ids kw w
        = (formatter ''cancel_order'' (if length order_ids > 1 then Many rs else Single (hd rs)),
           w\<lparr>sent := sent w @ map (delete_call kw) order_ids\<rparr>)"
proof -
  have len: "length rs = length order_ids"
    using arg_cong [OF assms(2), of length] by (simp add: replay_length)
  have loop: "GDAX_cancel_loop kw order_ids [] w =
      (Inr rs, w\<lparr>sent := sent w @ map (delete_call kw) order_ids\<rparr>)"
    using GDAX_cancel_loop_responses [OF assms(2), of "[]"] by simp
  have "rs \<noteq> []" using len assms(1) by auto
  then obtain r rs' where "rs = r # rs'" by (cases rs) auto
  with len loop have body: "GDAX_cancel_order_body order_ids kw w =
      (Inr (if length order_ids > 1 then Many rs else Single (hd rs)),
       w\<lparr>sent := sent w @ map (delete_call kw) order_ids\<rparr>)"
    by (simp add: GDAX_cancel_order_body_def bind_io_def unwrap_single_def return_io_def)
  have "GDAX_cancel_order formatter order_ids kw w
        = (formatter ''cancel_order'' (if length order_ids > 1 then Many rs else Single (hd rs)),
           w\<lparr>sent := sent w @ map (delete_call kw) order_ids\<rparr>)"
    unfolding GDAX_cancel_order_def
    by (rule format_with_result [of "GDAX_cancel_order_body order_ids kw" w, OF body])
  with len body assms(1) show ?thesis
    by (cases order_ids) auto
qed



text \<open>
  Claim C10. Called with no order identifier, \<open>GDAX.cancel_order\<close> issues no request and
  does not return: \<open>resps[0]\<close> indexes the empty list, and the call fails with
  \<open>IndexError\<close>, which is not an error of the system's taxonomy.
\<close>

theorem cancel_order_no_ids_IndexError:
  "GDAX_cancel_order_body [] kw w = (Inl IndexError, w)
   \<and> GDAX_cancel_order formatter [] kw w = (Inl IndexError, w)"
  by (simp add: GDAX_cancel_order_def GDAX_cancel_order_body_def unwrap_single_def
      format_with_def bind_io_def raise_io_def return_io_def)

section \<open>The stubbed Lykke methods\<close>

text \<open>
  Claim C4, as stated, fails for \<open>Lykke.ask\<close> and \<open>Lykke.bid\<close>: \<open>side\<close> is a keyword they
  accept, and passing it on to \<open>_place_order\<close>, which already receives \<open>side\<close> by position,
  is rejected with \<open>TypeError\<close> before \<open>_place_order\<close> runs.
\<close>

theorem lykke_ask_side_keyword_counterexample:
  "Lykke_ask (\<lambda>n r. Inr r) (\<lambda>p. p) ''BTCUSD'' (PInt 1) (PInt 2) (PBool False)
     [(''side'', PStr ''buy'')]
     \<lparr>exchange = (\<lambda>h c. Inl TransportError), sent = [], pairs_cache = Some [PStr ''BTCUSD'']\<rparr>
   = (Inl TypeError,
      \<lparr>exchange = (\<lambda>h c. Inl TransportError), sent = [], pairs_cache = Some [PStr ''BTCUSD'']\<rparr>)"
  by (simp add: Lykke_ask_def check_and_format_pair_def supported_pairs_def format_with_def
      bind_io_def Lykke_ask_body_def keyword_clash_def raise_io_def)

text \<open>
  Claim C4, amended. \<open>Lykke._place_order\<close>, \<open>Lykke.order_status\<close> and \<open>Lykke.cancel_order\<close>
  raise \<open>NotImplementedError\<close> for every input and issue no request; the request-building
  statements written after the \<open>raise\<close> never run, so the result does not depend on them.
  \<open>Lykke.ask\<close> and \<open>Lykke.bid\<close>, for a supported pair, issue no request either and fail for
  every input: with \<open>NotImplementedError\<close> when no keyword argument carries the name of a
  positional parameter of \<open>_place_order\<close>, and with \<open>TypeError\<close> otherwise.
\<close>

theorem lykke_order_methods_fail_without_request:
  "Lykke_place_order pair price sz side market kw w = (Inl NotImplementedError, w)
   \<and> Lykke_order_status_body order_id kw w = (Inl NotImplementedError, w)
   \<and> Lykke_cancel_order_body order_ids kw w = (Inl NotImplementedError, w)
   \<and> Lykke_order_status formatter order_id kw w = (Inl NotImplementedError, w)
   \<and> Lykke_cancel_order formatter order_ids kw w = (Inl NotImplementedError, w)
   \<and> Lykke_ask_body pair price sz market kw w =
       (Inl (if keyword_clash [''self'', ''pair'', ''price'', ''size'', ''side''] kw
             then TypeError else NotImplementedError), w)
   \<and> Lykke_bid_body pair price sz market kw w =
       (Inl (if keyword_clash [''self'', ''pair'', ''price'', ''size'', ''side''] kw
             then TypeError else NotImplementedError), w)
   \<and> (pairs_cache w = Some ps \<and> PStr pair \<in> set ps \<longrightarrow>
        Lykke_ask formatter native pair price sz market kw w =
          (Inl (if keyword_clash [''self'', ''pair'', ''price'', ''size'', ''side''] kw
                then TypeError else NotImplementedError), w)
      \<and> Lykke_bid formatter native pair price sz market kw w =
          (Inl (if keyword_clash [''self'', ''pair'', ''price'', ''size'', ''side''] kw
                then TypeError else NotImplementedError), w))"
proof -
  have po: "\<And>pair side. Lykke_place_order pair price sz side market kw w = (Inl NotImplementedError, w)"
    by (simp add: Lykke_place_order_def raise_then)
  have os: "Lykke_order_status_body order_id kw w = (Inl NotImplementedError, w)"
    by (simp add: Lykke_order_status_body_def raise_then)
  have co: "Lykke_cancel_order_body order_ids kw w = (Inl NotImplementedError, w)"
    by (simp add: Lykke_cancel_order_body_def raise_then)
  have ab: "\<And>pair. Lykke_ask_body pair price sz market kw w =
       (Inl (if keyword_clash [''self'', ''pair'', ''price'', ''size'', ''side''] kw
             then TypeError else NotImplementedError), w)
      \<and> Lykke_bid_body pair price sz market kw w =
       (Inl (if keyword_clash [''self'', ''pair'', ''price'', ''size'', ''side''] kw
             then TypeError else NotImplementedError), w)"
    by (simp add: Lykke_ask_body_def Lykke_bid_body_def bind_io_def po raise_io_def)
  have fo: "Lykke_order_status formatter order_id kw w = (Inl NotImplementedError, w)"
    by (simp add: Lykke_order_status_def format_with_def bind_io_def os)
  have fc: "Lykke_cancel_order formatter order_ids kw w = (Inl NotImplementedError, w)"
    by (simp add: Lykke_cancel_order_def format_with_def bind_io_def co)
  have dec: "pairs_cache w = Some ps \<and> PStr pair \<in> set ps \<Longrightarrow>
        Lykke_ask formatter native pair price sz market kw w =
          (Inl (if keyword_clash [''self'', ''pair'', ''price'', ''size'', ''side''] kw
                then TypeError else NotImplementedError), w)
      \<and> Lykke_bid formatter native pair price sz market kw w =
          (Inl (if keyword_clash [''self'', ''pair'', ''price'', ''size'', ''side''] kw
                then TypeError else NotImplementedError), w)"
    by (simp add: Lykke_ask_def Lykke_bid_def check_and_format_pair_supported format_with_def
        bind_io_def ab)
  from po os co ab fo fc dec show ?thesis by blast
qed

section \<open>Signing Lykke requests\<close>

lemma map_of_signed:
  "map_of (AList.update ''data'' x (AList.delete ''params'' (AList.update ''headers'' h req))) k =
     (if k = ''data'' then Some x else if k = ''params'' then None
      else if k = ''headers'' then Some h else map_of req k)"
  by (simp add: AList.update_conv' AList.delete_conv')

lemma sign_cases:
  "LykkeREST_sign_request_kwargs super_sign api endpoint kw = Inr r \<Longrightarrow>
   \<exists>req x. super_sign api endpoint kw = Inr req \<and>
     r = AList.update ''data'' x (AList.delete ''params''
           (AList.update ''headers'' (PDict [(''api-key'', key_value api)]) req))"
  by (auto simp: LykkeREST_sign_request_kwargs_def Let_def split: sum.splits option.splits if_splits)

lemma sign_returns:
  assumes "super_sign api endpoint kw = Inr req"
    and "map_of req ''params'' = Some p" and "map_of req ''data'' = Some d"
  shows "LykkeREST_sign_request_kwargs super_sign api endpoint kw =
     Inr (AList.update ''data'' (py_or p d) (AList.delete ''params''
           (AList.update ''headers'' (PDict [(''api-key'', key_value api)]) req)))"
  using assms
  by (simp add: LykkeREST_sign_request_kwargs_def Let_def AList.update_conv' AList.delete_conv'
      py_or_def)

text \<open>
  Claim C5. The Lykke signing strategy is key-only. A \<open>LykkeREST\<close> instance constructed
  without a secret (\<open>None\<close> or the empty string) holds the placeholder secret
  \<open>'not applicable'\<close>. For every endpoint, what \<open>sign_request_kwargs\<close> returns has the
  headers \<open>{'api-key': key}\<close> and nothing else for authentication; it does return whenever
  the base class's assembly has a \<open>params\<close> and a \<open>data\<close> entry. Beyond that assembly the
  method reads only the key: two instances with the same key and the same assembled
  request, whatever their secrets, get the same signed request.
\<close>

theorem lykke_signing_key_only:
  "secret (LykkeREST_init a k None v t c) = Some ''not applicable''
   \<and> secret (LykkeREST_init a k (Some []) v t c) = Some ''not applicable''
   \<and> (LykkeREST_sign_request_kwargs super_sign api endpoint kw = Inr r \<longrightarrow>
        map_of r ''headers'' = Some (PDict [(''api-key'', key_value api)]))
   \<and> (super_sign api endpoint kw = Inr req \<and> map_of req ''params'' = Some p
        \<and> map_of req ''data'' = Some d \<longrightarrow>
        (\<exists>r. LykkeREST_sign_request_kwargs super_sign api endpoint kw = Inr r
           \<and> map_of r ''headers'' = Some (PDict [(''api-key'', key_value api)])))
   \<and> (api_key api' = api_key api \<and> super_sign api' endpoint kw = super_sign api endpoint kw \<longrightarrow>
        LykkeREST_sign_request_kwargs super_sign api' endpoint kw
          = LykkeREST_sign_request_kwargs super_sign api endpoint kw)"
proof -
  have init: "secret (LykkeREST_init a k None v t c) = Some ''not applicable''
      \<and> secret (LykkeREST_init a k (Some []) v t c) = Some ''not applicable''"
    by (simp add: LykkeREST_init_def RESTAPI_init_def)
  have hdr: "LykkeREST_sign_request_kwargs super_sign api endpoint kw = Inr r \<Longrightarrow>
        map_of r ''headers'' = Some (PDict [(''api-key'', key_value api)])"
    using sign_cases [of super_sign api endpoint kw r] by (auto simp: map_of_signed)
  have ret: "super_sign api endpoint kw = Inr req \<and> map_of req ''params'' = Some p
        \<and> map_of req ''data'' = Some d \<Longrightarrow>
        (\<exists>r. LykkeREST_sign_request_kwargs super_sign api endpoint kw = Inr r
           \<and> map_of r ''headers'' = Some (PDict [(''api-key'', key_value api)]))"
    using sign_returns [of super_sign api endpoint kw req p d] by (simp add: map_of_signed)
  have indep: "api_key api' = api_key api \<and> super_sign api' endpoint kw = super_sign api endpoint kw \<Longrightarrow>
        LykkeREST_sign_request_kwargs super_sign api' endpoint kw
          = LykkeREST_sign_request_kwargs super_sign api endpoint kw"
  proof -
    assume h: "api_key api' = api_key api \<and> super_sign api' endpoint kw = super_sign api endpoint kw"
    then have kv: "key_value api' = key_value api" by (simp add: key_value_def)
    from h have su: "super_sign api' endpoint kw = super_sign api endpoint kw" by simp
    show ?thesis unfolding LykkeREST_sign_request_kwargs_def kv su by (rule refl)
  qed
  from init hdr ret indep show ?thesis by blast
qed

text \<open>
  Claim C6. For every endpoint and every set of keyword arguments, the request kwargs
  that \<open>LykkeREST.sign_request_kwargs\<close> returns have no \<open>params\<close> entry. When the base
  class's assembly has a \<open>params\<close> entry \<open>p\<close> and a \<open>data\<close> entry \<open>d\<close>, the method returns,
  and the \<open>data\<close> entry of the result is \<open>p\<close> when \<open>p\<close> is truthy and the original \<open>d\<close> only
  when \<open>p\<close> is falsy; the entries other than \<open>params\<close>, \<open>data\<close> and \<open>headers\<close> are as
  assembled.
\<close>

theorem lykke_sign_relocates_params:
  "(LykkeREST_sign_request_kwargs super_sign api endpoint kw = Inr r \<longrightarrow> map_of r ''params'' = None)
   \<and> (super_sign api endpoint kw = Inr req \<and> map_of req ''params'' = Some p
        \<and> map_of req ''data'' = Some d \<longrightarrow>
        (\<exists>r. LykkeREST_sign_request_kwargs super_sign api endpoint kw = Inr r
           \<and> map_of r ''params'' = None
           \<and> map_of r ''data'' = Some (if truthy p then p else d)
           \<and> (\<forall>k. k \<noteq> ''params'' \<and> k \<noteq> ''data'' \<and> k \<noteq> ''headers''
                 \<longrightarrow> map_of r k = map_of req k)))"
proof -
  have nop: "LykkeREST_sign_request_kwargs super_sign api endpoint kw = Inr r
      \<Longrightarrow> map_of r ''params'' = None"
    using sign_cases [of super_sign api endpoint kw r] by (auto simp: map_of_signed)
  have ret: "super_sign api endpoint kw = Inr req \<and> map_of req ''params'' = Some p
        \<and> map_of req ''data'' = Some d \<Longrightarrow>
        (\<exists>r. LykkeREST_sign_request_kwargs super_sign api endpoint kw = Inr r
           \<and> map_of r ''params'' = None
           \<and> map_of r ''data'' = Some (if truthy p then p else d)
           \<and> (\<forall>k. k \<noteq> ''params'' \<and> k \<noteq> ''data'' \<and> k \<noteq> ''headers''
                 \<longrightarrow> map_of r k = map_of req k))"
    using sign_returns [of super_sign api endpoint kw req p d] by (simp add: map_of_signed py_or_def)
  from nop ret show ?thesis by blast
qed

section \<open>Incomplete credentials\<close>

text \<open>
  Claim C7, as stated, fails for \<open>LykkeREST\<close>: an instance constructed with a key and an
  empty secret holds the placeholder secret, passes the credential check, and its
  authenticated request is signed and sent.
\<close>

theorem lykke_empty_secret_request_is_sent:
  "LykkeREST_check_auth_requirements (LykkeREST_init None (Some ''key'') (Some []) None 5 None)
     = Inr ()
   \<and> private_query LykkeREST_check_auth_requirements
       (LykkeREST_sign_request_kwargs (\<lambda>api e kw. Inr [(''params'', PDict kw), (''data'', PDict [])]))
       (LykkeREST_init None (Some ''key'') (Some []) None 5 None) ''GET'' ''Wallets'' []
       \<lparr>exchange = (\<lambda>h c. Inr \<lparr>status_code = 200, body_json = None\<rparr>), sent = [],
        pairs_cache = None\<rparr>
     = (Inr \<lparr>status_code = 200, body_json = None\<rparr>,
        \<lparr>exchange = (\<lambda>h c. Inr \<lparr>status_code = 200, body_json = None\<rparr>),
         sent = [RequestsRequest ''GET'' ''Wallets''
                   [(''data'', PDict []), (''headers'', PDict [(''api-key'', PStr ''key'')])]],
         pairs_cache = None\<rparr>)"
  by (simp add: LykkeREST_check_auth_requirements_def RESTAPI_check_auth_requirements_def
      configured_def LykkeREST_init_def RESTAPI_init_def private_query_def bind_io_def lift_io_def
      LykkeREST_sign_request_kwargs_def key_value_def requests_request_def perform_def
      AList.delete_eq)

text \<open>
  Claim C7, amended. A request that requires authentication, issued on a REST backend whose
  stored key or secret is empty, fails with \<open>IncompleteCredentialsError\<close> before the signing
  strategy runs and before any call is issued; this holds with the check of the base class
  and with \<open>LykkeREST.check_auth_requirements\<close>, which gives the outcome of the base check
  unchanged. A \<open>LykkeREST\<close> instance, as constructed, never has an empty secret, so its
  check fails exactly when its key is missing or empty.
\<close>

theorem incomplete_credentials_before_signing:
  "(\<not> configured api \<longrightarrow>
      private_query RESTAPI_check_auth_requirements sign api verb endpoint kw w
        = (Inl IncompleteCredentialsError, w)
    \<and> private_query LykkeREST_check_auth_requirements sign api verb endpoint kw w
        = (Inl IncompleteCredentialsError, w))
   \<and> LykkeREST_check_auth_requirements api = RESTAPI_check_auth_requirements api
   \<and> LykkeREST_check_auth_requirements (LykkeREST_init a k s v t c)
       = (if nonempty k then Inr () else Inl IncompleteCredentialsError)"
proof -
  have eq: "LykkeREST_check_auth_requirements api = RESTAPI_check_auth_requirements api" for api
    by (simp add: LykkeREST_check_auth_requirements_def RESTAPI_check_auth_requirements_def)
  have pq: "\<not> configured api \<Longrightarrow>
      private_query RESTAPI_check_auth_requirements sign api verb endpoint kw w
        = (Inl IncompleteCredentialsError, w)"
    by (simp add: private_query_def RESTAPI_check_auth_requirements_def bind_io_def lift_io_def)
  have pq': "\<not> configured api \<Longrightarrow>
      private_query LykkeREST_check_auth_requirements sign api verb endpoint kw w
        = (Inl IncompleteCredentialsError, w)"
    by (simp add: private_query_def eq RESTAPI_check_auth_requirements_def bind_io_def lift_io_def)
  have ne: "nonempty (Some (str_or s ''not applicable''))"
    by (cases s) auto
  have init: "LykkeREST_check_auth_requirements (LykkeREST_init a k s v t c)
       = (if nonempty k then Inr () else Inl IncompleteCredentialsError)"
    using ne
    by (simp add: eq RESTAPI_check_auth_requirements_def configured_def LykkeREST_init_def
        RESTAPI_init_def)
  from eq pq pq' init show ?thesis by blast
qed

section \<open>Fetching the supported pairs\<close>

lemma comprehension_ids:
  "map (\<lambda>d. map_of d k) ds = map Some ids \<Longrightarrow>
   comprehension (\<lambda>x. py_getitem x k) (map PDict ds) = Inr ids"
proof (induction ds arbitrary: ids)
  case Nil
  then show ?case by simp
next
  case (Cons d ds)
  then obtain v vs where "ids = v # vs" "map_of d k = Some v"
    "map (\<lambda>d. map_of d k) ds = map Some vs"
    by (cases ids) auto
  with Cons.IH [of vs] show ?case by simp
qed

text \<open>
  Claim C8. The fetch of the supported pairs issues one GET against the exchange's
  endpoint and extracts the native pair identifiers from the JSON array of the response:
  \<open>GDAX._get_supported_pairs\<close> returns the \<open>id\<close> field of every element of the array from
  the products endpoint, \<open>Lykke._get_supported_pairs\<close> the \<open>Id\<close> field of every element
  of the array from the \<open>AssetPairs\<close> endpoint, in the order of the array.
\<close>

theorem get_supported_pairs_extracts_ids:
  "(exchange w (sent w) (RequestsRequest ''GET'' ''https://api.gdax.com/products'' []) = Inr resp
      \<and> body_json resp = Some (PList (map PDict ds))
      \<and> map (\<lambda>d. map_of d ''id'') ds = map Some ids
    \<longrightarrow> GDAX_get_supported_pairs w =
          (Inr ids, w\<lparr>sent := sent w @ [RequestsRequest ''GET'' ''https://api.gdax.com/products'' []]\<rparr>))
   \<and> (exchange w (sent w) (InterfaceRequest ''GET'' ''AssetPairs'' False []) = Inr resp
      \<and> body_json resp = Some (PList (map PDict ds))
      \<and> map (\<lambda>d. map_of d ''Id'') ds = map Some ids
    \<longrightarrow> Lykke_get_supported_pairs w =
          (Inr ids, w\<lparr>sent := sent w @ [InterfaceRequest ''GET'' ''AssetPairs'' False []]\<rparr>))"
  by (auto simp add: GDAX_get_supported_pairs_def Lykke_get_supported_pairs_def
      Lykke_asset_pairs_def Lykke_request_def request_def requests_request_def perform_def
      json_def bind_io_def lift_io_def comprehension_ids)

section \<open>The parameters of Lykke trades\<close>

lemma map_of_trades_params:
  "map_of (trades_params kw) k =
     (if k = ''skip'' \<and> get_is_None kw ''skip'' then Some (PInt 0)
      else if k = ''take'' \<and> get_is_None kw ''take'' then Some (PInt 1000)
      else map_of kw k)"
  by (auto simp: trades_params_def Let_def dict_update_def AList.update_conv' get_is_None_def)

lemma Lykke_trades_body_world:
  "snd (Lykke_trades_body pair kw w) =
     w\<lparr>sent := sent w @ [RequestsRequest ''GET'' (''https://public-api.lykke.com/api/Trades/'' @ pair)
                           [(''params'', PDict (trades_params kw))]]\<rparr>"
  by (simp add: Lykke_trades_body_def requests_request_def bind_io_def perform_def return_io_def
      public_api_def split: sum.splits)

text \<open>
  Claim C9. Every call of the body of \<open>Lykke.trades\<close> issues one GET whose query parameters
  contain both \<open>skip\<close> and \<open>take\<close>: a \<open>skip\<close> that the caller omits or passes as \<open>None\<close>
  becomes \<open>0\<close>, a \<open>take\<close> that the caller omits or passes as \<open>None\<close> becomes \<open>1000\<close>, and
  every other value of the caller is passed through unchanged. For a supported pair the
  decorated method issues exactly that request.
\<close>

theorem lykke_trades_skip_take_defaults:
  "snd (Lykke_trades_body pair kw w) =
     w\<lparr>sent := sent w @ [RequestsRequest ''GET'' (''https://public-api.lykke.com/api/Trades/'' @ pair)
                           [(''params'', PDict (trades_params kw))]]\<rparr>
   \<and> (get_is_None kw ''skip'' \<longrightarrow> map_of (trades_params kw) ''skip'' = Some (PInt 0))
   \<and> (get_is_None kw ''take'' \<longrightarrow> map_of (trades_params kw) ''take'' = Some (PInt 1000))
   \<and> (\<not> get_is_None kw ''skip'' \<longrightarrow> map_of (trades_params kw) ''skip'' = map_of kw ''skip'')
   \<and> (\<not> get_is_None kw ''take'' \<longrightarrow> map_of (trades_params kw) ''take'' = map_of kw ''take'')
   \<and> map_of (trades_params kw) ''skip'' \<noteq> None
   \<and> map_of (trades_params kw) ''take'' \<noteq> None
   \<and> (\<forall>k. k \<noteq> ''skip'' \<and> k \<noteq> ''take'' \<longrightarrow> map_of (trades_params kw) k = map_of kw k)
   \<and> (pairs_cache w = Some ps \<and> PStr pair \<in> set ps \<longrightarrow>
        snd (Lykke_trades formatter native pair kw w) =
          w\<lparr>sent := sent w @ [RequestsRequest ''GET''
                                (''https://public-api.lykke.com/api/Trades/'' @ native pair)
                                [(''params'', PDict (trades_params kw))]]\<rparr>)"
proof -
  have present: "map_of (trades_params kw) ''skip'' \<noteq> None
      \<and> map_of (trades_params kw) ''take'' \<noteq> None"
    by (auto simp: map_of_trades_params get_is_None_def split: option.splits)
  have dec: "pairs_cache w = Some ps \<and> PStr pair \<in> set ps \<Longrightarrow>
        snd (Lykke_trades formatter native pair kw w) =
          w\<lparr>sent := sent w @ [RequestsRequest ''GET''
                                (''https://public-api.lykke.com/api/Trades/'' @ native pair)
                                [(''params'', PDict (trades_params kw))]]\<rparr>"
    by (simp add: Lykke_trades_def check_and_format_pair_supported format_with_world
        Lykke_trades_body_world)
  from present dec show ?thesis
    by (simp add: map_of_trades_params Lykke_trades_body_world)
qed

section \<open>Concrete instances\<close>

text \<open>Each theorem with a hypothesis, applied to a concrete world: the hypotheses hold
  there and the conclusion is the value the definitions compute.\<close>

theorem unsupported_pair_rejected_witness:
  "pairs_cache \<lparr>exchange = (\<lambda>h c. Inl TransportError), sent = [],
                pairs_cache = Some [PStr ''BTC-USD'']\<rparr> = Some [PStr ''BTC-USD'']
   \<and> PStr ''FOO-BAR'' \<notin> set [PStr ''BTC-USD'']
   \<and> GDAX_bid (\<lambda>n r. Inr r) (\<lambda>p. p) ''FOO-BAR'' (PInt 1) (PInt 2) []
        \<lparr>exchange = (\<lambda>h c. Inl TransportError), sent = [], pairs_cache = Some [PStr ''BTC-USD'']\<rparr>
     = (Inl UnsupportedPairError,
        \<lparr>exchange = (\<lambda>h c. Inl TransportError), sent = [], pairs_cache = Some [PStr ''BTC-USD'']\<rparr>)
   \<and> Lykke_ticker (\<lambda>n r. Inr r) (\<lambda>p. p) ''FOO-BAR'' []
        \<lparr>exchange = (\<lambda>h c. Inl TransportError), sent = [], pairs_cache = Some [PStr ''BTC-USD'']\<rparr>
     = (Inl UnsupportedPairError,
        \<lparr>exchange = (\<lambda>h c. Inl TransportError), sent = [], pairs_cache = Some [PStr ''BTC-USD'']\<rparr>)"
  using unsupported_pair_rejected
    [of "\<lparr>exchange = (\<lambda>h c. Inl TransportError), sent = [], pairs_cache = Some [PStr ''BTC-USD'']\<rparr>"
      "[PStr ''BTC-USD'']" "''FOO-BAR''" "\<lambda>n r. Inr r" "\<lambda>p. p" "[]" "PInt 1" "PInt 2" PNone]
  by simp

theorem cancel_order_one_delete_per_id_witness:
  "[''a'', ''b''] \<noteq> ([] :: string list)
   \<and> replay (\<lambda>h c. Inr \<lparr>status_code = 200 + length h, body_json = None\<rparr>) []
        (map (delete_call []) [''a'', ''b''])
      = map Inr [\<lparr>status_code = 200, body_json = None\<rparr>, \<lparr>status_code = 201, body_json = None\<rparr>]
   \<and> snd (GDAX_cancel_order_body [''a'', ''b''] []
        \<lparr>exchange = (\<lambda>h c. Inr \<lparr>status_code = 200 + length h, body_json = None\<rparr>), sent = [],
         pairs_cache = None\<rparr>)
      = \<lparr>exchange = (\<lambda>h c. Inr \<lparr>status_code = 200 + length h, body_json = None\<rparr>),
         sent = [InterfaceRequest ''DELETE'' ''orders/a'' True [(''json'', PDict [])],
                 InterfaceRequest ''DELETE'' ''orders/b'' True [(''json'', PDict [])]],
         pairs_cache = None\<rparr>
   \<and> fst (GDAX_cancel_order_body [''a'', ''b''] []
        \<lparr>exchange = (\<lambda>h c. Inr \<lparr>status_code = 200 + length h, body_json = None\<rparr>), sent = [],
         pairs_cache = None\<rparr>)
      = Inr (Many [\<lparr>status_code = 200, body_json = None\<rparr>, \<lparr>status_code = 201, body_json = None\<rparr>])"
  using cancel_order_one_delete_per_id
    [of "[''a'', ''b'']"
      "\<lparr>exchange = (\<lambda>h c. Inr \<lparr>status_code = 200 + length h, body_json = None\<rparr>), sent = [],
        pairs_cache = None\<rparr>"
      "[]" "[\<lparr>status_code = 200, body_json = None\<rparr>, \<lparr>status_code = 201, body_json = None\<rparr>]"
      "\<lambda>n r. Inr r"]
  by (simp add: delete_call_def)


theorem lykke_order_methods_fail_without_request_witness:
  "pairs_cache \<lparr>exchange = (\<lambda>h c. Inl TransportError), sent = [],
                  pairs_cache = Some [PStr ''BTCUSD'']\<rparr> = Some [PStr ''BTCUSD'']
   \<and> PStr ''BTCUSD'' \<in> set [PStr ''BTCUSD'']
   \<and> \<not> keyword_clash [''self'', ''pair'', ''price'', ''size'', ''side''] [(''comment'', PStr ''x'')]
   \<and> Lykke_ask (\<lambda>n r. Inr r) (\<lambda>p. p) ''BTCUSD'' (PInt 1) (PInt 2) (PBool False)
        [(''comment'', PStr ''x'')]
        \<lparr>exchange = (\<lambda>h c. Inl TransportError), sent = [], pairs_cache = Some [PStr ''BTCUSD'']\<rparr>
     = (Inl NotImplementedError,
        \<lparr>exchange = (\<lambda>h c. Inl TransportError), sent = [], pairs_cache = Some [PStr ''BTCUSD'']\<rparr>)
   \<and> keyword_clash [''self'', ''pair'', ''price'', ''size'', ''side''] [(''side'', PStr ''buy'')]
   \<and> Lykke_bid (\<lambda>n r. Inr r) (\<lambda>p. p) ''BTCUSD'' (PInt 1) (PInt 2) (PBool False)
        [(''side'', PStr ''buy'')]
        \<lparr>exchange = (\<lambda>h c. Inl TransportError), sent = [], pairs_cache = Some [PStr ''BTCUSD'']\<rparr>
     = (Inl TypeError,
        \<lparr>exchange = (\<lambda>h c. Inl TransportError), sent = [], pairs_cache = Some [PStr ''BTCUSD'']\<rparr>)"
  using lykke_order_methods_fail_without_request
    [where kw = "[(''comment'', PStr ''x'')]"
       and w = "\<lparr>exchange = (\<lambda>h c. Inl TransportError), sent = [], pairs_cache = Some [PStr ''BTCUSD'']\<rparr>"
       and ps = "[PStr ''BTCUSD'']" and pair = "''BTCUSD''" and price = "PInt 1" and sz = "PInt 2"
       and market = "PBool False" and formatter = "\<lambda>n r. Inr r" and native = "\<lambda>p. p"]
    lykke_order_methods_fail_without_request
    [where kw = "[(''side'', PStr ''buy'')]"
       and w = "\<lparr>exchange = (\<lambda>h c. Inl TransportError), sent = [], pairs_cache = Some [PStr ''BTCUSD'']\<rparr>"
       and ps = "[PStr ''BTCUSD'']" and pair = "''BTCUSD''" and price = "PInt 1" and sz = "PInt 2"
       and market = "PBool False" and formatter = "\<lambda>n r. Inr r" and native = "\<lambda>p. p"]
  by (simp add: keyword_clash_def)

theorem lykke_signing_key_only_witness:
  "LykkeREST_sign_request_kwargs
       (\<lambda>api e kw. Inr [(''url'', PStr e), (''params'', PDict kw), (''data'', PDict [])])
       (LykkeREST_init None (Some ''key'') None None 5 None) ''Wallets'' []
     = Inr [(''url'', PStr ''Wallets''), (''data'', PDict []),
            (''headers'', PDict [(''api-key'', PStr ''key'')])]
   \<and> map_of [(''url'', PStr ''Wallets''), (''data'', PDict []),
              (''headers'', PDict [(''api-key'', PStr ''key'')])] ''headers''
     = Some (PDict [(''api-key'', key_value (LykkeREST_init None (Some ''key'') None None 5 None))])
   \<and> secret (LykkeREST_init None (Some ''key'') None None 5 None) = Some ''not applicable''"
  using lykke_signing_key_only
    [where super_sign = "\<lambda>api e kw. Inr [(''url'', PStr e), (''params'', PDict kw), (''data'', PDict [])]"
       and api = "LykkeREST_init None (Some ''key'') None None 5 None"
       and api' = "LykkeREST_init None (Some ''key'') None None 5 None"
       and endpoint = "''Wallets''" and kw = "[]"
       and r = "[(''url'', PStr ''Wallets''), (''data'', PDict []),
                 (''headers'', PDict [(''api-key'', PStr ''key'')])]"
       and req = "[(''url'', PStr ''Wallets''), (''params'', PDict []), (''data'', PDict [])]"
       and p = "PDict []" and d = "PDict []"
       and a = None and k = "Some ''key''" and v = None and t = 5 and c = None]
  by (simp add: LykkeREST_sign_request_kwargs_def LykkeREST_init_def RESTAPI_init_def key_value_def
      AList.delete_eq)

theorem lykke_sign_relocates_params_witness:
  "LykkeREST_sign_request_kwargs
       (\<lambda>api e kw. Inr [(''params'', PDict kw), (''data'', PDict [])])
       (LykkeREST_init None (Some ''key'') None None 5 None) ''Orders''
       [(''status'', PStr ''Open'')]
     = Inr [(''data'', PDict [(''status'', PStr ''Open'')]),
            (''headers'', PDict [(''api-key'', PStr ''key'')])]
   \<and> map_of [(''data'', PDict [(''status'', PStr ''Open'')]),
              (''headers'', PDict [(''api-key'', PStr ''key'')])] ''params'' = None
   \<and> map_of [(''params'', PDict [(''status'', PStr ''Open'')]), (''data'', PDict [])] ''params''
       = Some (PDict [(''status'', PStr ''Open'')])
   \<and> map_of [(''params'', PDict [(''status'', PStr ''Open'')]), (''data'', PDict [])] ''data''
       = Some (PDict [])"
  using lykke_sign_relocates_params
    [where super_sign = "\<lambda>api e kw. Inr [(''params'', PDict kw), (''data'', PDict [])]"
       and api = "LykkeREST_init None (Some ''key'') None None 5 None"
       and endpoint = "''Orders''" and kw = "[(''status'', PStr ''Open'')]"
       and r = "[(''data'', PDict [(''status'', PStr ''Open'')]),
                 (''headers'', PDict [(''api-key'', PStr ''key'')])]"
       and req = "[(''params'', PDict [(''status'', PStr ''Open'')]), (''data'', PDict [])]"
       and p = "PDict [(''status'', PStr ''Open'')]" and d = "PDict []"]
  by (simp add: LykkeREST_sign_request_kwargs_def LykkeREST_init_def RESTAPI_init_def key_value_def
      AList.delete_eq)

theorem incomplete_credentials_before_signing_witness:
  "\<not> configured (RESTAPI_init ''https://hft-api.lykke.com/api'' None (Some ''key'') (Some []) 5 None)
   \<and> private_query LykkeREST_check_auth_requirements
        (LykkeREST_sign_request_kwargs (\<lambda>api e kw. Inr [(''params'', PDict kw), (''data'', PDict [])]))
        (RESTAPI_init ''https://hft-api.lykke.com/api'' None (Some ''key'') (Some []) 5 None)
        ''GET'' ''Wallets'' []
        \<lparr>exchange = (\<lambda>h c. Inr \<lparr>status_code = 200, body_json = None\<rparr>), sent = [],
         pairs_cache = None\<rparr>
      = (Inl IncompleteCredentialsError,
         \<lparr>exchange = (\<lambda>h c. Inr \<lparr>status_code = 200, body_json = None\<rparr>), sent = [],
          pairs_cache = None\<rparr>)
   \<and> LykkeREST_check_auth_requirements (LykkeREST_init None None (Some ''s'') None 5 None)
      = Inl IncompleteCredentialsError"
  using incomplete_credentials_before_signing
    [where api = "RESTAPI_init ''https://hft-api.lykke.com/api'' None (Some ''key'') (Some []) 5 None"
       and sign = "LykkeREST_sign_request_kwargs (\<lambda>api e kw. Inr [(''params'', PDict kw), (''data'', PDict [])])"
       and verb = "''GET''" and endpoint = "''Wallets''" and kw = "[]"
       and w = "\<lparr>exchange = (\<lambda>h c. Inr \<lparr>status_code = 200, body_json = None\<rparr>), sent = [],
                 pairs_cache = None\<rparr>"
       and a = None and k = None and s = "Some ''s''" and v = None and t = 5 and c = None]
  by (simp add: configured_def RESTAPI_init_def)

theorem get_supported_pairs_extracts_ids_witness:
  "exchange \<lparr>exchange = (\<lambda>h c. Inr \<lparr>status_code = 200,
        body_json = Some (PList (map PDict
          [[(''id'', PStr ''BTC-USD''), (''Id'', PStr ''BTCUSD'')],
           [(''id'', PStr ''ETH-USD''), (''Id'', PStr ''ETHUSD'')]]))\<rparr>),
      sent = [], pairs_cache = None\<rparr> []
      (RequestsRequest ''GET'' ''https://api.gdax.com/products'' [])
     = Inr \<lparr>status_code = 200,
        body_json = Some (PList (map PDict
          [[(''id'', PStr ''BTC-USD''), (''Id'', PStr ''BTCUSD'')],
           [(''id'', PStr ''ETH-USD''), (''Id'', PStr ''ETHUSD'')]]))\<rparr>
   \<and> map (\<lambda>d. map_of d ''id'')
         [[(''id'', PStr ''BTC-USD''), (''Id'', PStr ''BTCUSD'')],
          [(''id'', PStr ''ETH-USD''), (''Id'', PStr ''ETHUSD'')]]
       = map Some [PStr ''BTC-USD'', PStr ''ETH-USD'']
   \<and> map (\<lambda>d. map_of d ''Id'')
         [[(''id'', PStr ''BTC-USD''), (''Id'', PStr ''BTCUSD'')],
          [(''id'', PStr ''ETH-USD''), (''Id'', PStr ''ETHUSD'')]]
       = map Some [PStr ''BTCUSD'', PStr ''ETHUSD'']
   \<and> fst (GDAX_get_supported_pairs \<lparr>exchange = (\<lambda>h c. Inr \<lparr>status_code = 200,
        body_json = Some (PList (map PDict
          [[(''id'', PStr ''BTC-USD''), (''Id'', PStr ''BTCUSD'')],
           [(''id'', PStr ''ETH-USD''), (''Id'', PStr ''ETHUSD'')]]))\<rparr>),
      sent = [], pairs_cache = None\<rparr>) = Inr [PStr ''BTC-USD'', PStr ''ETH-USD'']
   \<and> sent (snd (GDAX_get_supported_pairs \<lparr>exchange = (\<lambda>h c. Inr \<lparr>status_code = 200,
        body_json = Some (PList (map PDict
          [[(''id'', PStr ''BTC-USD''), (''Id'', PStr ''BTCUSD'')],
           [(''id'', PStr ''ETH-USD''), (''Id'', PStr ''ETHUSD'')]]))\<rparr>),
      sent = [], pairs_cache = None\<rparr>))
       = [RequestsRequest ''GET'' ''https://api.gdax.com/products'' []]
   \<and> fst (Lykke_get_supported_pairs \<lparr>exchange = (\<lambda>h c. Inr \<lparr>status_code = 200,
        body_json = Some (PList (map PDict
          [[(''id'', PStr ''BTC-USD''), (''Id'', PStr ''BTCUSD'')],
           [(''id'', PStr ''ETH-USD''), (''Id'', PStr ''ETHUSD'')]]))\<rparr>),
      sent = [], pairs_cache = None\<rparr>) = Inr [PStr ''BTCUSD'', PStr ''ETHUSD'']"
  using get_supported_pairs_extracts_ids
    [where w = "\<lparr>exchange = (\<lambda>h c. Inr \<lparr>status_code = 200,
        body_json = Some (PList (map PDict
          [[(''id'', PStr ''BTC-USD''), (''Id'', PStr ''BTCUSD'')],
           [(''id'', PStr ''ETH-USD''), (''Id'', PStr ''ETHUSD'')]]))\<rparr>),
      sent = [], pairs_cache = None\<rparr>"
       and resp = "\<lparr>status_code = 200,
        body_json = Some (PList (map PDict
          [[(''id'', PStr ''BTC-USD''), (''Id'', PStr ''BTCUSD'')],
           [(''id'', PStr ''ETH-USD''), (''Id'', PStr ''ETHUSD'')]]))\<rparr>"
       and ds = "[[(''id'', PStr ''BTC-USD''), (''Id'', PStr ''BTCUSD'')],
           [(''id'', PStr ''ETH-USD''), (''Id'', PStr ''ETHUSD'')]]"
       and ids = "[PStr ''BTC-USD'', PStr ''ETH-USD'']"]
    get_supported_pairs_extracts_ids
    [where w = "\<lparr>exchange = (\<lambda>h c. Inr \<lparr>status_code = 200,
        body_json = Some (PList (map PDict
          [[(''id'', PStr ''BTC-USD''), (''Id'', PStr ''BTCUSD'')],
           [(''id'', PStr ''ETH-USD''), (''Id'', PStr ''ETHUSD'')]]))\<rparr>),
      sent = [], pairs_cache = None\<rparr>"
       and resp = "\<lparr>status_code = 200,
        body_json = Some (PList (map PDict
          [[(''id'', PStr ''BTC-USD''), (''Id'', PStr ''BTCUSD'')],
           [(''id'', PStr ''ETH-USD''), (''Id'', PStr ''ETHUSD'')]]))\<rparr>"
       and ds = "[[(''id'', PStr ''BTC-USD''), (''Id'', PStr ''BTCUSD'')],
           [(''id'', PStr ''ETH-USD''), (''Id'', PStr ''ETHUSD'')]]"
       and ids = "[PStr ''BTCUSD'', PStr ''ETHUSD'']"]
  by simp

theorem lykke_trades_skip_take_defaults_witness:
  "get_is_None [(''take'', PInt 5)] ''skip''
   \<and> \<not> get_is_None [(''take'', PInt 5)] ''take''
   \<and> map_of (trades_params [(''take'', PInt 5)]) ''skip'' = Some (PInt 0)
   \<and> map_of (trades_params [(''take'', PInt 5)]) ''take'' = Some (PInt 5)
   \<and> get_is_None [(''skip'', PNone)] ''take''
   \<and> map_of (trades_params [(''skip'', PNone)]) ''take'' = Some (PInt 1000)
   \<and> map_of (trades_params [(''skip'', PNone)]) ''skip'' = Some (PInt 0)
   \<and> PStr ''BTCUSD'' \<in> set [PStr ''BTCUSD'']
   \<and> sent (snd (Lykke_trades (\<lambda>n r. Inr r) (\<lambda>p. p) ''BTCUSD'' [(''take'', PInt 5)]
        \<lparr>exchange = (\<lambda>h c. Inl TransportError), sent = [], pairs_cache = Some [PStr ''BTCUSD'']\<rparr>))
      = [RequestsRequest ''GET'' ''https://public-api.lykke.com/api/Trades/BTCUSD''
           [(''params'', PDict [(''take'', PInt 5), (''skip'', PInt 0)])]]"
  using lykke_trades_skip_take_defaults
    [where kw = "[(''take'', PInt 5)]" and pair = "''BTCUSD''" and ps = "[PStr ''BTCUSD'']"
       and formatter = "\<lambda>n r. Inr r" and native = "\<lambda>p. p"
       and w = "\<lparr>exchange = (\<lambda>h c. Inl TransportError), sent = [], pairs_cache = Some [PStr ''BTCUSD'']\<rparr>"]
    lykke_trades_skip_take_defaults
    [where kw = "[(''skip'', PNone)]" and pair = "''BTCUSD''" and ps = "[PStr ''BTCUSD'']"
       and formatter = "\<lambda>n r. Inr r" and native = "\<lambda>p. p"
       and w = "\<lparr>exchange = (\<lambda>h c. Inl TransportError), sent = [], pairs_cache = Some [PStr ''BTCUSD'']\<rparr>"]
  by (simp add: get_is_None_def trades_params_def dict_update_def)

end
